theory Spec2Isabelle
  imports Main
begin

section \<open>Output profiles (profile.js)\<close>

text \<open>
  The module keeps a dictionary \<open>profiles\<close> of named output profiles and exports
  \<open>create\<close>, \<open>get\<close>, \<open>remove\<close>, \<open>stringCase\<close>, \<open>quote\<close> and \<open>selfClosing\<close>.
  JavaScript values are embedded as follows.
  \<^item> Primitive values are \<open>prim\<close>; numbers are integers (the only numeric option,
    \<open>inline_break\<close>, is one). Strings are \<open>string\<close>, and a string of the model is a
    string of ASCII characters.
  \<^item> A value is a primitive or a reference to an object of the heap. An object has a
    prototype tag and a dictionary of its own properties. Option values are primitive,
    as every field of \<open>defaultProfile\<close> and of the built-in profiles is; the methods of
    \<open>OutputProfile.prototype\<close> are reached through the tag and are not property values.
  \<^item> The case value of \<open>stringCase\<close> and the parameter of \<open>quote\<close> and
    \<open>selfClosing\<close>, documented as strings, range over the primitive values.
  \<^item> The dictionary \<open>profiles\<close> is the map of the names that were registered; what it
    inherits from \<open>Object.prototype\<close> is not part of the map.
  \<^item> A call that throws returns \<open>Inl TypeError\<close>.
\<close>

subsection \<open>Values, objects and the heap\<close>

datatype prim = Undefined | Null | Bool bool | Num int | Str string

type_synonym addr = nat

datatype jsval = Prim prim | Ref addr

datatype proto = ObjectPrototype | OutputProfilePrototype

record jsobj =
  proto :: proto
  props :: "string \<rightharpoonup> prim"

datatype error = TypeError

text \<open>Truthiness (ToBoolean).\<close>

fun truthy_prim :: "prim \<Rightarrow> bool" where
  "truthy_prim Undefined = False"
| "truthy_prim Null = False"
| "truthy_prim (Bool b) = b"
| "truthy_prim (Num n) = (n \<noteq> 0)"
| "truthy_prim (Str s) = (s \<noteq> [])"

fun truthy :: "jsval \<Rightarrow> bool" where
  "truthy (Prim p) = truthy_prim p"
| "truthy (Ref a) = True"

text \<open>\<open>_.isString\<close>.\<close>

fun isString :: "jsval \<Rightarrow> bool" where
  "isString (Prim (Str s)) = True"
| "isString v = False"

subsection \<open>Strings\<close>


definition lower_char :: "char \<Rightarrow> char" where
  "lower_char c =
     (let n = (of_char c :: nat) in if 65 \<le> n \<and> n \<le> 90 then char_of (n + 32) else c)"

definition upper_char :: "char \<Rightarrow> char" where
  "upper_char c =
     (let n = (of_char c :: nat) in if 97 \<le> n \<and> n \<le> 122 then char_of (n - 32) else c)"

definition toLowerCase :: "string \<Rightarrow> string" where
  "toLowerCase s = map lower_char s"

definition toUpperCase :: "string \<Rightarrow> string" where
  "toUpperCase s = map upper_char s"






text \<open>Decimal digits of a natural number, for \<open>String(n)\<close>.\<close>

fun digits :: "nat \<Rightarrow> string" where
  "digits n =
     (if n < 10 then [char_of (48 + n)]
      else digits (n div 10) @ [char_of (48 + n mod 10)])"

declare digits.simps [simp del]

text \<open>\<open>String(v)\<close> for a primitive \<open>v\<close>.\<close>

fun String_prim :: "prim \<Rightarrow> string" where
  "String_prim Undefined = ''undefined''"
| "String_prim Null = ''null''"
| "String_prim (Bool b) = (if b then ''true'' else ''false'')"
| "String_prim (Num n) = (if n < 0 then ''-'' @ digits (nat (- n)) else digits (nat n))"
| "String_prim (Str s) = s"

subsection \<open>stringCase\<close>

text \<open>
  \<open>str.toLowerCase()\<close> and \<open>str.toUpperCase()\<close>: a method call on a value that is not a
  string throws (no other value of the model has these methods).
\<close>

fun call_toLowerCase :: "jsval \<Rightarrow> error + string" where
  "call_toLowerCase (Prim (Str s)) = Inr (toLowerCase s)"
| "call_toLowerCase v = Inl TypeError"

fun call_toUpperCase :: "jsval \<Rightarrow> error + string" where
  "call_toUpperCase (Prim (Str s)) = Inr (toUpperCase s)"
| "call_toUpperCase v = Inl TypeError"

text \<open>The switch expression \<open>String(caseValue || '').toLowerCase()\<close>.\<close>

definition caseKey :: "prim \<Rightarrow> string" where
  "caseKey caseValue =
     toLowerCase (String_prim (if truthy_prim caseValue then caseValue else Str []))"

definition stringCase :: "jsval \<Rightarrow> prim \<Rightarrow> error + jsval" where
  "stringCase str caseValue =
     (let k = caseKey caseValue in
      if k = ''lower'' then map_sum id (\<lambda>s. Prim (Str s)) (call_toLowerCase str)
      else if k = ''upper'' then map_sum id (\<lambda>s. Prim (Str s)) (call_toUpperCase str)
      else Inr str)"

subsection \<open>Profile objects and their accessors\<close>

text \<open>
  A read \<open>obj[k]\<close> of a property the object does not have gives \<open>undefined\<close>. None of
  the option names is a member of \<open>OutputProfile.prototype\<close> or \<open>Object.prototype\<close>,
  so the reads below are decided by the own properties.
\<close>

definition read_prop :: "jsobj \<Rightarrow> string \<Rightarrow> prim" where
  "read_prop obj k = (case props obj k of None \<Rightarrow> Undefined | Some v \<Rightarrow> v)"

text \<open>
  \<open>v == 'word'\<close> for a string literal that is not numeric (\<open>'single'\<close>, \<open>'xhtml'\<close>): a
  number or a boolean is compared with \<open>ToNumber('word')\<close>, which is NaN; \<open>undefined\<close>
  and \<open>null\<close> equal only each other.
\<close>

fun loose_eq_word :: "prim \<Rightarrow> string \<Rightarrow> bool" where
  "loose_eq_word (Str s) w = (s = w)"
| "loose_eq_word (Num n) w = False"
| "loose_eq_word (Bool b) w = False"
| "loose_eq_word Undefined w = False"
| "loose_eq_word Null w = False"

definition tagName :: "jsobj \<Rightarrow> jsval \<Rightarrow> error + jsval" where
  "tagName this name = stringCase name (read_prop this ''tag_case'')"


definition attributeQuote :: "jsobj \<Rightarrow> string" where
  "attributeQuote this =
     (if loose_eq_word (read_prop this ''attr_quotes'') ''single'' then [CHR 0x27]
      else [CHR 0x22])"

definition OutputProfile_selfClosing :: "jsobj \<Rightarrow> string" where
  "OutputProfile_selfClosing this =
     (if loose_eq_word (read_prop this ''self_closing_tag'') ''xhtml'' then '' /''
      else if read_prop this ''self_closing_tag'' = Bool True then ''/''
      else [])"

text \<open>
  The collaborators of the module: \<open>require('resources').getSubset(syntax, 'profile')\<close>
  (a profile name or \<open>undefined\<close>), \<open>require('utils').getCaretPlaceholder()\<close>, and the
  Underscore library. Releases of
  Underscore differ in two points, which are parameters here: whether \<open>_.extend\<close> skips
  a source property whose value is \<open>undefined\<close>, and whether \<open>_.defaults\<close> fills a
  property that is \<open>null\<close> as well as one that is \<open>undefined\<close>.
\<close>

record env =
  getSubset :: "jsval \<Rightarrow> prim"
  getCaretPlaceholder :: string
  extend_skips_undefined :: bool
  defaults_fills_null :: bool

definition cursor :: "env \<Rightarrow> jsobj \<Rightarrow> string" where
  "cursor e this =
     (if truthy_prim (read_prop this ''place_cursor'') then getCaretPlaceholder e else [])"

definition defaultProfile :: "string \<rightharpoonup> prim" where
  "defaultProfile =
     [''tag_case'' \<mapsto> Str ''lower'',
      ''attr_case'' \<mapsto> Str ''lower'',
      ''attr_quotes'' \<mapsto> Str ''double'',
      ''tag_nl'' \<mapsto> Str ''decide'',
      ''place_cursor'' \<mapsto> Bool True,
      ''indent'' \<mapsto> Bool True,
      ''inline_break'' \<mapsto> Num 3,
      ''self_closing_tag'' \<mapsto> Str ''xhtml'',
      ''filters'' \<mapsto> Str []]"

definition default_keys :: "string list" where
  "default_keys =
     [''tag_case'', ''attr_case'', ''attr_quotes'', ''tag_nl'', ''place_cursor'',
      ''indent'', ''inline_break'', ''self_closing_tag'', ''filters'']"

text \<open>The five methods of \<open>OutputProfile.prototype\<close>.\<close>

definition method_names :: "string list" where
  "method_names =
     [''tagName'', ''attributeName'', ''attributeQuote'', ''selfClosing'', ''cursor'']"

text \<open>
  \<open>obj.m\<close> is one of the accessor methods: the object inherits from
  \<open>OutputProfile.prototype\<close> and no own property hides the method.
\<close>

definition has_method :: "jsobj \<Rightarrow> string \<Rightarrow> bool" where
  "has_method obj m =
     (proto obj = OutputProfilePrototype \<and> m \<in> set method_names \<and> props obj m = None)"

text \<open>
  \<open>k in obj\<close>: an own property or a member of the prototype chain (the standard
  members of \<open>Object.prototype\<close>, and the methods for a profile).
\<close>

definition object_prototype_names :: "string list" where
  "object_prototype_names =
     [''constructor'', ''toString'', ''toLocaleString'', ''valueOf'', ''hasOwnProperty'',
      ''isPrototypeOf'', ''propertyIsEnumerable'']"

definition has_property :: "jsobj \<Rightarrow> string \<Rightarrow> bool" where
  "has_property obj k =
     (props obj k \<noteq> None \<or> k \<in> set object_prototype_names \<or>
      (proto obj = OutputProfilePrototype \<and> k \<in> set method_names))"

subsection \<open>The module state\<close>

text \<open>
  The heap of objects, the dictionary \<open>profiles\<close> (its own properties; the values are
  the stored instances), the next free address, and the lines written by
  \<open>console.log\<close>.
\<close>

record state =
  heap :: "addr \<rightharpoonup> jsobj"
  profiles :: "string \<rightharpoonup> addr"
  next_addr :: addr
  console :: "string list"

definition empty_object :: jsobj where
  "empty_object = \<lparr>proto = ObjectPrototype, props = Map.empty\<rparr>"

text \<open>The object a reference points to. A state of the program has no dangling reference.\<close>

definition obj_at :: "state \<Rightarrow> addr \<Rightarrow> jsobj" where
  "obj_at st a = (case heap st a of None \<Rightarrow> empty_object | Some obj \<Rightarrow> obj)"

definition alloc :: "state \<Rightarrow> jsobj \<Rightarrow> addr \<times> state" where
  "alloc st obj =
     (next_addr st, st\<lparr>heap := (heap st)(next_addr st \<mapsto> obj), next_addr := next_addr st + 1\<rparr>)"

text \<open>An object literal \<open>{k: v, ...}\<close>.\<close>

definition new_object :: "state \<Rightarrow> (string \<rightharpoonup> prim) \<Rightarrow> jsval \<times> state" where
  "new_object st ps =
     (let (a, st') = alloc st \<lparr>proto = ObjectPrototype, props = ps\<rparr> in (Ref a, st'))"

subsection \<open>Underscore: extend and defaults\<close>

text \<open>
  The properties a \<open>for ... in\<close> loop over a source copies: those of an object; for a
  string its characters, under the indices \<open>"0"\<close>, \<open>"1"\<close>, ...; none for another
  primitive. (The methods a profile inherits are enumerable too; copying them changes
  no property read, and they are not recorded as own properties.)
\<close>

definition index_props :: "string \<Rightarrow> (string \<rightharpoonup> prim)" where
  "index_props s = map_of (zip (map digits [0..<length s]) (map (\<lambda>c. Str [c]) s))"

fun enum_props :: "state \<Rightarrow> jsval \<Rightarrow> (string \<rightharpoonup> prim)" where
  "enum_props st (Ref a) = props (obj_at st a)"
| "enum_props st (Prim (Str s)) = index_props s"
| "enum_props st (Prim p) = Map.empty"

definition drop_undefined :: "(string \<rightharpoonup> prim) \<Rightarrow> (string \<rightharpoonup> prim)" where
  "drop_undefined src = (\<lambda>k. case src k of Some Undefined \<Rightarrow> None | r \<Rightarrow> r)"

text \<open>\<open>_.extend(dst, src)\<close> on the properties: the source wins.\<close>

definition extend_props :: "env \<Rightarrow> (string \<rightharpoonup> prim) \<Rightarrow> (string \<rightharpoonup> prim) \<Rightarrow> (string \<rightharpoonup> prim)" where
  "extend_props e dst src = dst ++ (if extend_skips_undefined e then drop_undefined src else src)"

definition missing :: "env \<Rightarrow> prim \<Rightarrow> bool" where
  "missing e v = (v = Undefined \<or> (defaults_fills_null e \<and> v = Null))"

text \<open>\<open>_.defaults(obj, src)\<close> on the properties: \<open>obj\<close> wins where it has a value.\<close>

definition defaults_props :: "env \<Rightarrow> (string \<rightharpoonup> prim) \<Rightarrow> (string \<rightharpoonup> prim) \<Rightarrow> (string \<rightharpoonup> prim)" where
  "defaults_props e ps src =
     (\<lambda>k. case src k of
             None \<Rightarrow> ps k
           | Some d \<Rightarrow>
               if missing e (case ps k of None \<Rightarrow> Undefined | Some v \<Rightarrow> v) then Some d
               else ps k)"

text \<open>
  \<open>_.defaults(v, defaultProfile)\<close>: the object \<open>v\<close> refers to is filled in place and
  \<open>v\<close> is returned. An assignment to a property of a primitive has no effect.
\<close>

fun defaults :: "env \<Rightarrow> state \<Rightarrow> jsval \<Rightarrow> jsval \<times> state" where
  "defaults e st (Ref a) =
     (Ref a,
      st\<lparr>heap := (heap st)(a \<mapsto>
            (obj_at st a)\<lparr>props := defaults_props e (props (obj_at st a)) defaultProfile\<rparr>)\<rparr>)"
| "defaults e st (Prim p) = (Prim p, st)"

subsection \<open>The registry\<close>

text \<open>\<open>new OutputProfile(options)\<close>: \<open>_.extend(this, defaultProfile, options)\<close>.\<close>

definition OutputProfile :: "env \<Rightarrow> state \<Rightarrow> jsval \<Rightarrow> addr \<times> state" where
  "OutputProfile e st options =
     alloc st \<lparr>proto = OutputProfilePrototype,
               props = extend_props e (extend_props e Map.empty defaultProfile) (enum_props st options)\<rparr>"

definition createProfile :: "env \<Rightarrow> state \<Rightarrow> jsval \<Rightarrow> jsval \<Rightarrow> error + jsval \<times> state" where
  "createProfile e st name options =
     (case call_toLowerCase name of
        Inl err \<Rightarrow> Inl err
      | Inr k \<Rightarrow>
          (let (a, st') = OutputProfile e st options
           in Inr (Ref a, st'\<lparr>profiles := (profiles st')(k \<mapsto> a)\<rparr>)))"

text \<open>
  \<open>create\<close> looks at the number of its arguments; a parameter without an argument
  is \<open>undefined\<close>.
\<close>

definition arg :: "jsval list \<Rightarrow> nat \<Rightarrow> jsval" where
  "arg args i = (if i < length args then args ! i else Prim Undefined)"

definition create :: "env \<Rightarrow> state \<Rightarrow> jsval list \<Rightarrow> error + jsval \<times> state" where
  "create e st args =
     (if length args = 2 then createProfile e st (arg args 0) (arg args 1)
      else
        (let name = arg args 0 in
         if truthy name then Inr (defaults e st name)
         else (let (a, st') = alloc st empty_object in Inr (defaults e st' (Ref a)))))"

definition plain_profile :: "state \<Rightarrow> jsval" where
  "plain_profile st = (case profiles st ''plain'' of None \<Rightarrow> Prim Undefined | Some a \<Rightarrow> Ref a)"

text \<open>
  The last line of \<open>get\<close>: \<open>name && 'tag_case' in name ? this.create(name) : profiles['plain']\<close>.
  The operator \<open>in\<close> throws when its right operand is not an object.
\<close>

fun get_fallback :: "env \<Rightarrow> state \<Rightarrow> jsval \<Rightarrow> error + jsval \<times> state" where
  "get_fallback e st (Ref a) =
     (if has_property (obj_at st a) ''tag_case'' then create e st [Ref a]
      else Inr (plain_profile st, st))"
| "get_fallback e st (Prim p) =
     (if truthy_prim p then Inl TypeError else Inr (plain_profile st, st))"

definition resolve_name :: "env \<Rightarrow> jsval \<Rightarrow> jsval \<Rightarrow> jsval" where
  "resolve_name e name syn =
     (if truthy syn \<and> isString name then
        (let profile = getSubset e syn in if truthy_prim profile then Prim profile else name)
      else name)"

text \<open>
  \<open>name.toLowerCase() in profiles\<close> is the lookup of a registered name in the map. A name
  that only \<open>Object.prototype\<close> supplies (\<open>constructor\<close>) is not a registered name, and
  what the code does with it is outside the model.
\<close>

definition get :: "env \<Rightarrow> state \<Rightarrow> jsval \<Rightarrow> jsval \<Rightarrow> error + jsval \<times> state" where
  "get e st name syn =
     (let name = resolve_name e name syn in
      case name of
        Prim (Str s) \<Rightarrow>
          (case profiles st (toLowerCase s) of
             Some a \<Rightarrow> Inr (Ref a, st)
           | None \<Rightarrow> get_fallback e st name)
      | _ \<Rightarrow> get_fallback e st name)"

definition remove_profile :: "state \<Rightarrow> jsval \<Rightarrow> error + state" where
  "remove_profile st name =
     (case call_toLowerCase (if truthy name then name else Prim (Str [])) of
        Inl err \<Rightarrow> Inl err
      | Inr k \<Rightarrow>
          Inr (if profiles st k \<noteq> None then st\<lparr>profiles := (profiles st)(k := None)\<rparr> else st))"

text \<open>The deprecated functions log and answer from their parameter alone.\<close>

definition quote :: "state \<Rightarrow> prim \<Rightarrow> string \<times> state" where
  "quote st param =
     (if loose_eq_word param ''single'' then [CHR 0x27] else [CHR 0x22],
      st\<lparr>console := console st @ [''deprecated'']\<rparr>)"

definition selfClosing :: "state \<Rightarrow> prim \<Rightarrow> string \<times> state" where
  "selfClosing st param =
     (if loose_eq_word param ''xhtml'' then '' /''
      else if param = Bool True then ''/''
      else [],
      st\<lparr>console := console st @ [''deprecated'']\<rparr>)"

subsection \<open>Module initialisation\<close>

definition empty_state :: state where
  "empty_state = \<lparr>heap = Map.empty, profiles = Map.empty, next_addr = 0, console = []\<rparr>"

definition and_then :: "error + 'a \<Rightarrow> ('a \<Rightarrow> error + 'b) \<Rightarrow> error + 'b" where
  "and_then r f = (case r of Inl err \<Rightarrow> Inl err | Inr x \<Rightarrow> f x)"

text \<open>The four \<open>createProfile\<close> calls that register the built-in profiles.\<close>

definition module_init :: "env \<Rightarrow> error + state" where
  "module_init e =
     and_then (createProfile e empty_state (Prim (Str ''xhtml'')) (Prim Undefined)) (\<lambda>(p1, s1).
     let (o2, s2) = new_object s1 [''self_closing_tag'' \<mapsto> Bool False] in
     and_then (createProfile e s2 (Prim (Str ''html'')) o2) (\<lambda>(p2, s3).
     let (o3, s4) = new_object s3 [''self_closing_tag'' \<mapsto> Bool True, ''tag_nl'' \<mapsto> Bool True] in
     and_then (createProfile e s4 (Prim (Str ''xml'')) o3) (\<lambda>(p3, s5).
     let (o4, s6) = new_object s5
           [''tag_nl'' \<mapsto> Bool False, ''indent'' \<mapsto> Bool False, ''place_cursor'' \<mapsto> Bool False] in
     and_then (createProfile e s6 (Prim (Str ''plain'')) o4) (\<lambda>(p4, s7). Inr s7))))"

subsection \<open>States of the running module\<close>

text \<open>The state after the module has been loaded.\<close>

definition initial_state :: "env \<Rightarrow> state" where
  "initial_state e = (case module_init e of Inl err \<Rightarrow> empty_state | Inr st \<Rightarrow> st)"

text \<open>An argument that is a reference points to an object of the heap.\<close>

fun allocated :: "state \<Rightarrow> jsval \<Rightarrow> bool" where
  "allocated st (Ref a) = (heap st a \<noteq> None)"
| "allocated st (Prim p) = True"

text \<open>
  The states the module goes through: it is loaded, its functions are called, and its
  callers build objects and assign to the properties of the objects they hold. The
  dictionary \<open>profiles\<close> is local to the module, so only the module writes it.
\<close>

inductive reachable :: "env \<Rightarrow> state \<Rightarrow> bool" for e :: env where
  loaded: "module_init e = Inr st \<Longrightarrow> reachable e st"
| called_create:
    "reachable e st \<Longrightarrow> list_all (allocated st) args \<Longrightarrow> create e st args = Inr (v, st')
     \<Longrightarrow> reachable e st'"
| called_get:
    "reachable e st \<Longrightarrow> allocated st name \<Longrightarrow> get e st name syn = Inr (v, st')
     \<Longrightarrow> reachable e st'"
| called_remove:
    "reachable e st \<Longrightarrow> remove_profile st name = Inr st' \<Longrightarrow> reachable e st'"
| called_quote: "reachable e st \<Longrightarrow> reachable e (snd (quote st param))"
| called_selfClosing: "reachable e st \<Longrightarrow> reachable e (snd (selfClosing st param))"
| caller_object: "reachable e st \<Longrightarrow> reachable e (snd (new_object st ps))"
| caller_assignment:
    "reachable e st \<Longrightarrow> heap st a = Some obj
     \<Longrightarrow> reachable e (st\<lparr>heap := (heap st)(a \<mapsto> obj\<lparr>props := (props obj)(k \<mapsto> v)\<rparr>)\<rparr>)"

text \<open>Every key of the dictionary is in lower case.\<close>

definition keys_lower :: "state \<Rightarrow> bool" where
  "keys_lower st = (\<forall>k \<in> dom (profiles st). toLowerCase k = k)"

text \<open>Every object of the heap lies below the next free address.\<close>

definition heap_ok :: "state \<Rightarrow> bool" where
  "heap_ok st = (\<forall>a \<in> dom (heap st). a < next_addr st)"

text \<open>What a call returned, and the state it left; a call that throws changes nothing.\<close>

definition result_value :: "error + jsval \<times> state \<Rightarrow> error + jsval" where
  "result_value r = map_sum id fst r"

definition state_after :: "state \<Rightarrow> error + jsval \<times> state \<Rightarrow> state" where
  "state_after st r = (case r of Inl err \<Rightarrow> st | Inr (v, st') \<Rightarrow> st')"

text \<open>The state after a caller has built the object literal \<open>{k: v, ...}\<close>.\<close>

definition with_object :: "state \<Rightarrow> (string \<rightharpoonup> prim) \<Rightarrow> state" where
  "with_object st ps = snd (new_object st ps)"

text \<open>
  An environment for the examples: no syntax has a profile of its own, and Underscore
  copies every property and fills \<open>null\<close> and \<open>undefined\<close>.
\<close>

definition sample_env :: env where
  "sample_env =
     \<lparr>getSubset = (\<lambda>syn. Undefined), getCaretPlaceholder = ''|'',
      extend_skips_undefined = False, defaults_fills_null = True\<rparr>"

section \<open>Properties\<close>

subsection \<open>Evaluation and auxiliary facts\<close>

lemmas char_eval = lower_char_def upper_char_def char_of_def bit_Suc_0_iff

lemma toLowerCase_Nil [simp]: "toLowerCase [] = []"
  by (simp add: toLowerCase_def)

lemma toLowerCase_idem [simp]: "toLowerCase (toLowerCase s) = toLowerCase s"
  by (simp add: toLowerCase_def lower_char_def Let_def)

lemma toLowerCase_Nil_iff [simp]: "toLowerCase s = [] \<longleftrightarrow> s = []"
  by (simp add: toLowerCase_def)

lemma lower_names [simp]:
  "toLowerCase ''xhtml'' = ''xhtml''" "toLowerCase ''html'' = ''html''"
  "toLowerCase ''xml'' = ''xml''" "toLowerCase ''plain'' = ''plain''"
  by (simp_all add: toLowerCase_def char_eval)

lemma lower_XHTML: "toLowerCase ''XHTML'' = ''xhtml''"
  by (simp add: toLowerCase_def char_eval)

lemma lower_leave: "toLowerCase ''leave'' = ''leave''"
  by (simp add: toLowerCase_def char_eval)

lemma lower_nonexistent: "toLowerCase ''nonexistent-name'' = ''nonexistent-name''"
  by (simp add: toLowerCase_def char_eval)

lemma loose_eq_word_iff: "loose_eq_word v w \<longleftrightarrow> v = Str w"
  by (cases v) auto


lemma caseKey_upper: "caseKey (Str ''upper'') = ''upper''"
  by (simp add: caseKey_def toLowerCase_def char_eval)

lemma caseKey_LOWER: "caseKey (Str ''LOWER'') = ''lower''"
  by (simp add: caseKey_def toLowerCase_def char_eval)

lemma caseKey_falsy: "\<not> truthy_prim c \<Longrightarrow> caseKey c = []"
  by (simp add: caseKey_def toLowerCase_def)

lemma caseKey_Str: "caseKey (Str t) = toLowerCase t"
  by (simp add: caseKey_def toLowerCase_def)

lemma caseKey_not_string:
  "caseKey Undefined = []" "caseKey Null = []"
  "caseKey (Bool b) \<noteq> ''lower''" "caseKey (Bool b) \<noteq> ''upper''"
  by (simp_all add: caseKey_def toLowerCase_def char_eval)

lemma digit_char:
  "(k::nat) < 10 \<Longrightarrow>
   lower_char (char_of (48 + k)) = char_of (48 + k) \<and>
   char_of (48 + k) \<noteq> CHR ''l'' \<and> char_of (48 + k) \<noteq> CHR ''u''"
proof -
  assume "k < 10"
  then have "k = 0 \<or> k = 1 \<or> k = 2 \<or> k = 3 \<or> k = 4 \<or> k = 5 \<or> k = 6 \<or> k = 7 \<or> k = 8 \<or> k = 9"
    by arith
  then show ?thesis by (elim disjE) (simp_all add: char_eval)
qed

lemma digits_chars:
  "\<forall>c \<in> set (digits n). lower_char c = c \<and> c \<noteq> CHR ''l'' \<and> c \<noteq> CHR ''u''"
proof (induction n rule: digits.induct)
  case (1 n)
  show ?case
  proof (cases "n < 10")
    case True
    then have "digits n = [char_of (48 + n)]" by (subst digits.simps) simp
    with True show ?thesis using digit_char [of n] by simp
  next
    case False
    then have d: "digits n = digits (n div 10) @ [char_of (48 + n mod 10)]"
      by (subst digits.simps) simp
    have "n mod 10 < 10" by simp
    then have l: "lower_char (char_of (48 + n mod 10)) = char_of (48 + n mod 10) \<and>
        char_of (48 + n mod 10) \<noteq> CHR ''l'' \<and> char_of (48 + n mod 10) \<noteq> CHR ''u''"
      by (rule digit_char)
    from 1 [OF False] l show ?thesis unfolding d by simp
  qed
qed

lemma String_Num_chars:
  "\<forall>c \<in> set (String_prim (Num n)). lower_char c = c \<and> c \<noteq> CHR ''l'' \<and> c \<noteq> CHR ''u''"
proof -
  have m: "lower_char (CHR ''-'') = CHR ''-''" by (simp add: char_eval)
  show ?thesis using digits_chars [of "nat n"] digits_chars [of "nat (- n)"] m by simp
qed

lemma caseKey_Num: "caseKey (Num n) \<noteq> ''lower'' \<and> caseKey (Num n) \<noteq> ''upper''"
proof (cases "n = 0")
  case True
  then show ?thesis by (simp add: caseKey_falsy)
next
  case False
  define s where "s = String_prim (Num n)"
  have c: "\<forall>c \<in> set s. lower_char c = c \<and> c \<noteq> CHR ''l'' \<and> c \<noteq> CHR ''u''"
    unfolding s_def by (rule String_Num_chars)
  then have "toLowerCase s = s" by (simp add: toLowerCase_def map_idI)
  then have k: "caseKey (Num n) = s" using False by (simp add: caseKey_def s_def)
  have "CHR ''l'' \<notin> set s" "CHR ''u'' \<notin> set s" using c by blast+
  then have "s \<noteq> ''lower''" "s \<noteq> ''upper''" by auto
  with k show ?thesis by simp
qed


lemma drop_undefined_empty [simp]: "drop_undefined Map.empty = Map.empty"
  by (simp add: drop_undefined_def)

lemma drop_undefined_upd [simp]:
  "v \<noteq> Undefined \<Longrightarrow> drop_undefined (m(k \<mapsto> v)) = (drop_undefined m)(k \<mapsto> v)"
  by (auto simp: drop_undefined_def fun_eq_iff split: option.splits prim.splits)

lemma extend_props_defaultProfile [simp]: "extend_props e Map.empty defaultProfile = defaultProfile"
  by (simp add: extend_props_def defaultProfile_def)

lemma extend_literal:
  "extend_props e m (ps(k \<mapsto> v)) = (if v = Undefined \<and> extend_skips_undefined e then extend_props e m (ps(k := None)) else (extend_props e m ps)(k \<mapsto> v))"
  by (auto simp: extend_props_def drop_undefined_def fun_eq_iff map_add_def split: option.splits prim.splits)

lemma extend_props_empty [simp]: "extend_props e m Map.empty = m"
  by (simp add: extend_props_def)

lemma extend_props_wins:
  "src k = Some v \<Longrightarrow> v \<noteq> Undefined \<Longrightarrow> extend_props e dst src k = Some v"
  by (simp add: extend_props_def drop_undefined_def map_add_def split: prim.splits)

lemma dom_defaultProfile: "dom defaultProfile = set default_keys"
  by (auto simp: defaultProfile_def default_keys_def)

lemma defaultProfile_None_iff: "defaultProfile k = None \<longleftrightarrow> k \<notin> set default_keys"
  by (metis dom_defaultProfile domIff)

lemma defaults_props_absent: "ps k = None \<Longrightarrow> defaults_props e ps src k = src k"
  by (simp add: defaults_props_def missing_def split: option.splits)

lemma defaults_props_kept:
  "ps k = Some v \<Longrightarrow> \<not> missing e v \<Longrightarrow> defaults_props e ps src k = Some v"
  by (simp add: defaults_props_def split: option.splits)

lemma defaults_props_other: "src k = None \<Longrightarrow> defaults_props e ps src k = ps k"
  by (simp add: defaults_props_def)

lemma defaults_props_filled: "src k \<noteq> None \<Longrightarrow> defaults_props e ps src k \<noteq> None"
  by (auto simp: defaults_props_def missing_def split: option.splits)

lemma missing_Str [simp]: "\<not> missing e (Str s)"
  by (simp add: missing_def)

lemma has_property_own: "props obj k \<noteq> None \<Longrightarrow> has_property obj k"
  by (simp add: has_property_def)

lemma arg_simps [simp]:
  "arg (x # xs) 0 = x" "arg [] i = Prim Undefined" "arg (x # xs) (Suc i) = arg xs i"
  by (simp_all add: arg_def)

lemma result_value_simps [simp]:
  "result_value (Inr (v, st)) = Inr v" "result_value (Inl err) = Inl err"
  by (simp_all add: result_value_def)

lemma state_after_simps [simp]:
  "state_after st0 (Inr (v, st)) = st" "state_after st0 (Inl err) = st0"
  by (simp_all add: state_after_def)

lemma createProfile_xhtml: "createProfile e empty_state (Prim (Str ''xhtml'')) (Prim Undefined) = 
   Inr (Ref 0, \<lparr>heap = [0 \<mapsto> \<lparr>proto = OutputProfilePrototype, props = defaultProfile\<rparr>], profiles = [''xhtml'' \<mapsto> 0], next_addr = 1, console = []\<rparr>)"
  by (simp add: createProfile_def OutputProfile_def alloc_def empty_state_def del: One_nat_def)

lemma module_init_eq:
  "module_init e = Inr
     \<lparr>heap =
        [0 \<mapsto> \<lparr>proto = OutputProfilePrototype, props = defaultProfile\<rparr>,
         1 \<mapsto> \<lparr>proto = ObjectPrototype, props = [''self_closing_tag'' \<mapsto> Bool False]\<rparr>,
         2 \<mapsto> \<lparr>proto = OutputProfilePrototype,
                props = defaultProfile(''self_closing_tag'' \<mapsto> Bool False)\<rparr>,
         3 \<mapsto> \<lparr>proto = ObjectPrototype,
                props = [''self_closing_tag'' \<mapsto> Bool True, ''tag_nl'' \<mapsto> Bool True]\<rparr>,
         4 \<mapsto> \<lparr>proto = OutputProfilePrototype,
                props = defaultProfile(''self_closing_tag'' \<mapsto> Bool True, ''tag_nl'' \<mapsto> Bool True)\<rparr>,
         5 \<mapsto> \<lparr>proto = ObjectPrototype,
                props = [''tag_nl'' \<mapsto> Bool False, ''indent'' \<mapsto> Bool False,
                         ''place_cursor'' \<mapsto> Bool False]\<rparr>,
         6 \<mapsto> \<lparr>proto = OutputProfilePrototype,
                props = defaultProfile(''tag_nl'' \<mapsto> Bool False, ''indent'' \<mapsto> Bool False,
                         ''place_cursor'' \<mapsto> Bool False)\<rparr>],
      profiles = [''xhtml'' \<mapsto> 0, ''html'' \<mapsto> 2, ''xml'' \<mapsto> 4, ''plain'' \<mapsto> 6],
      next_addr = 7,
      console = []\<rparr>"
  unfolding module_init_def and_then_def createProfile_xhtml
  by (simp add: createProfile_def OutputProfile_def alloc_def
      new_object_def obj_at_def extend_literal del: One_nat_def)

lemma module_init_initial: "module_init e = Inr (initial_state e)"
  by (simp add: initial_state_def module_init_eq)

lemma initial_profiles [simp]:
  "profiles (initial_state e) = [''xhtml'' \<mapsto> 0, ''html'' \<mapsto> 2, ''xml'' \<mapsto> 4, ''plain'' \<mapsto> 6]"
  by (simp add: initial_state_def module_init_eq)

lemma initial_next_addr [simp]: "next_addr (initial_state e) = 7"
  by (simp add: initial_state_def module_init_eq)

lemma initial_heap_dom: "dom (heap (initial_state e)) = {0, 1, 2, 3, 4, 5, 6}"
  by (auto simp add: initial_state_def module_init_eq)

lemma initial_objects:
  "obj_at (initial_state e) 0 = \<lparr>proto = OutputProfilePrototype, props = defaultProfile\<rparr>"
  "obj_at (initial_state e) 2 =
     \<lparr>proto = OutputProfilePrototype, props = defaultProfile(''self_closing_tag'' \<mapsto> Bool False)\<rparr>"
  "obj_at (initial_state e) 4 =
     \<lparr>proto = OutputProfilePrototype,
      props = defaultProfile(''self_closing_tag'' \<mapsto> Bool True, ''tag_nl'' \<mapsto> Bool True)\<rparr>"
  "obj_at (initial_state e) 6 =
     \<lparr>proto = OutputProfilePrototype,
      props = defaultProfile(''tag_nl'' \<mapsto> Bool False, ''indent'' \<mapsto> Bool False,
                ''place_cursor'' \<mapsto> Bool False)\<rparr>"
  by (simp_all add: obj_at_def initial_state_def module_init_eq)

lemma with_object_fields [simp]:
  "heap (with_object st ps) = (heap st)(next_addr st \<mapsto> \<lparr>proto = ObjectPrototype, props = ps\<rparr>)"
  "profiles (with_object st ps) = profiles st"
  "next_addr (with_object st ps) = next_addr st + 1"
  "console (with_object st ps) = console st"
  by (simp_all add: with_object_def new_object_def alloc_def)

lemma defaults_fields:
  "profiles (snd (defaults e st v)) = profiles st"
  "next_addr (snd (defaults e st v)) = next_addr st"
  "console (snd (defaults e st v)) = console st"
  "fst (defaults e st v) = v"
  by (cases v; simp)+

lemma defaults_dom: "allocated st v \<Longrightarrow> dom (heap (snd (defaults e st v))) = dom (heap st)"
  by (cases v) auto

lemma createProfile_Str:
  "createProfile e st (Prim (Str s)) options =
     Inr (Ref (next_addr st),
          st\<lparr>heap := (heap st)(next_addr st \<mapsto>
                 \<lparr>proto = OutputProfilePrototype,
                  props = extend_props e defaultProfile (enum_props st options)\<rparr>),
              next_addr := next_addr st + 1,
              profiles := (profiles st)(toLowerCase s \<mapsto> next_addr st)\<rparr>)"
  by (simp add: createProfile_def OutputProfile_def alloc_def)

lemma createProfile_Inr:
  assumes "createProfile e st name options = Inr (v, st')"
  obtains s where "name = Prim (Str s)" "v = Ref (next_addr st)"
    "profiles st' = (profiles st)(toLowerCase s \<mapsto> next_addr st)"
    "next_addr st' = next_addr st + 1"
    "heap st' = (heap st)(next_addr st \<mapsto>
                 \<lparr>proto = OutputProfilePrototype,
                  props = extend_props e defaultProfile (enum_props st options)\<rparr>)"
    "console st' = console st"
proof (cases "call_toLowerCase name")
  case (Inl err)
  with assms show ?thesis by (simp add: createProfile_def)
next
  case (Inr k)
  then obtain s where s: "name = Prim (Str s)"
    by (cases name rule: call_toLowerCase.cases) auto
  with assms that show ?thesis
    by (auto simp: createProfile_Str)
qed

lemma create_two:
  "create e st [Prim (Str s), options] =
     Inr (Ref (next_addr st),
          st\<lparr>heap := (heap st)(next_addr st \<mapsto>
                 \<lparr>proto = OutputProfilePrototype,
                  props = extend_props e defaultProfile (enum_props st options)\<rparr>),
              next_addr := next_addr st + 1,
              profiles := (profiles st)(toLowerCase s \<mapsto> next_addr st)\<rparr>)"
  by (simp add: create_def createProfile_Str)

lemma create_Ref:
  "create e st [Ref a] =
     Inr (Ref a,
          st\<lparr>heap := (heap st)(a \<mapsto>
            (obj_at st a)\<lparr>props := defaults_props e (props (obj_at st a)) defaultProfile\<rparr>)\<rparr>)"
  by (simp add: create_def)

lemma create_other_eq:
  "length args \<noteq> 2 \<Longrightarrow>
   create e st args =
     Inr (if truthy (arg args 0) then defaults e st (arg args 0)
          else defaults e (snd (alloc st empty_object)) (Ref (next_addr st)))"
  by (simp add: create_def alloc_def Let_def)

lemma create_other_state:
  assumes "create e st args = Inr (v, st')" "length args \<noteq> 2"
  shows "v = (if truthy (arg args 0) then arg args 0 else Ref (next_addr st))"
    and "st' = (if truthy (arg args 0) then snd (defaults e st (arg args 0))
          else snd (defaults e (snd (alloc st empty_object)) (Ref (next_addr st))))"
proof -
  have eq: "(v, st') = (if truthy (arg args 0) then defaults e st (arg args 0)
          else defaults e (snd (alloc st empty_object)) (Ref (next_addr st)))"
    using assms by (simp add: create_other_eq)
  show "v = (if truthy (arg args 0) then arg args 0 else Ref (next_addr st))"
    using arg_cong [OF eq, of fst] by (simp add: defaults_fields split: if_splits)
  show "st' = (if truthy (arg args 0) then snd (defaults e st (arg args 0))
          else snd (defaults e (snd (alloc st empty_object)) (Ref (next_addr st))))"
    using arg_cong [OF eq, of snd] by (simp split: if_splits)
qed

lemma create_other_frame:
  assumes "create e st args = Inr (v, st')" "length args \<noteq> 2"
  shows "profiles st' = profiles st" "console st' = console st"
  using create_other_state(2) [OF assms]
  by (simp_all add: defaults_fields alloc_def split: if_splits)

lemma defaults_props_empty [simp]: "defaults_props e Map.empty src = src"
  by (simp add: defaults_props_def missing_def fun_eq_iff split: option.splits)


lemma resolve_name_no_syntax [simp]: "\<not> truthy syn \<Longrightarrow> resolve_name e name syn = name"
  by (simp add: resolve_name_def)

lemma resolve_name_Ref [simp]: "resolve_name e (Ref a) syn = Ref a"
  by (simp add: resolve_name_def)

lemma get_registered:
  "profiles st (toLowerCase n) = Some a \<Longrightarrow>
   get e st (Prim (Str n)) (Prim Undefined) = Inr (Ref a, st)"
  by (simp add: get_def)

lemma get_unregistered:
  "profiles st (toLowerCase n) = None \<Longrightarrow>
   get e st (Prim (Str n)) (Prim Undefined) =
     (if n = [] then Inr (plain_profile st, st) else Inl TypeError)"
  by (simp add: get_def)

lemma get_Ref:
  "get e st (Ref a) syn =
     (if has_property (obj_at st a) ''tag_case'' then create e st [Ref a]
      else Inr (plain_profile st, st))"
  by (simp add: get_def)

lemma get_cases:
  assumes "get e st name syn = Inr (v, st')"
  shows "st' = st \<or> (\<exists>a. name = Ref a \<and> create e st [Ref a] = Inr (v, st'))"
proof (cases name)
  case (Ref a)
  with assms show ?thesis
    by (auto simp: get_def resolve_name_def split: if_splits)
next
  case (Prim p)
  with assms show ?thesis
    by (auto simp: get_def resolve_name_def Let_def split: if_splits prim.splits option.splits)
qed

lemma get_string_profiles:
  "profiles st' = profiles st \<Longrightarrow>
   result_value (get e st' (Prim (Str n)) (Prim Undefined)) =
   result_value (get e st (Prim (Str n)) (Prim Undefined))"
  by (cases "profiles st (toLowerCase n)")
    (simp_all add: get_registered get_unregistered plain_profile_def)




lemma keys_lower_upd: "keys_lower st \<Longrightarrow> profiles st' = (profiles st)(toLowerCase s \<mapsto> a) \<Longrightarrow> keys_lower st'"
  by (auto simp: keys_lower_def split: if_splits)

lemma keys_lower_same: "keys_lower st \<Longrightarrow> profiles st' = profiles st \<Longrightarrow> keys_lower st'"
  by (simp add: keys_lower_def)

lemma heap_ok_alloc:
  "heap_ok st \<Longrightarrow> heap st' = (heap st)(next_addr st \<mapsto> obj) \<Longrightarrow> next_addr st' = next_addr st + 1
   \<Longrightarrow> heap_ok st'"
  by (auto simp: heap_ok_def split: if_splits intro: less_SucI)

lemma heap_ok_same:
  "heap_ok st \<Longrightarrow> dom (heap st') = dom (heap st) \<Longrightarrow> next_addr st' = next_addr st \<Longrightarrow> heap_ok st'"
  by (simp add: heap_ok_def)

lemma allocated_arg: "list_all (allocated st) args \<Longrightarrow> allocated st (arg args i)"
  by (simp add: arg_def list_all_length)

lemma create_other_heap_ok:
  assumes "create e st args = Inr (v, st')" "length args \<noteq> 2" "list_all (allocated st) args"
    "heap_ok st"
  shows "heap_ok st'"
proof (cases "truthy (arg args 0)")
  case True
  then have st': "st' = snd (defaults e st (arg args 0))"
    using create_other_state(2) [OF assms(1,2)] by simp
  show ?thesis
    unfolding st'
    by (rule heap_ok_same [OF assms(4)])
      (simp_all add: defaults_dom defaults_fields allocated_arg [OF assms(3)])
next
  case False
  then have st': "st' = snd (defaults e (snd (alloc st empty_object)) (Ref (next_addr st)))"
    using create_other_state(2) [OF assms(1,2)] by simp
  have ok: "heap_ok (snd (alloc st empty_object))"
    by (rule heap_ok_alloc [OF assms(4)]) (simp_all add: alloc_def)
  show ?thesis
    unfolding st'
    by (rule heap_ok_same [OF ok]) (simp_all add: defaults_dom defaults_fields alloc_def)
qed

lemma create_two_inv:
  assumes "create e st args = Inr (v, st')" "length args = 2"
  shows "keys_lower st \<Longrightarrow> keys_lower st'" "heap_ok st \<Longrightarrow> heap_ok st'"
proof -
  from assms have cp: "createProfile e st (arg args 0) (arg args 1) = Inr (v, st')"
    by (simp add: create_def)
  show "keys_lower st \<Longrightarrow> keys_lower st'"
    using cp by (elim createProfile_Inr) (rule keys_lower_upd)
  show "heap_ok st \<Longrightarrow> heap_ok st'"
    using cp by (elim createProfile_Inr) (rule heap_ok_alloc)
qed

lemma create_inv:
  assumes "create e st args = Inr (v, st')" "list_all (allocated st) args"
  shows "keys_lower st \<Longrightarrow> keys_lower st'" "heap_ok st \<Longrightarrow> heap_ok st'"
proof -
  show "keys_lower st \<Longrightarrow> keys_lower st'"
    using assms create_two_inv(1) [of e st args v st'] create_other_frame(1) [of e st args v st']
      keys_lower_same [of st st']
    by (cases "length args = 2") blast+
  show "heap_ok st \<Longrightarrow> heap_ok st'"
    using assms create_two_inv(2) [of e st args v st'] create_other_heap_ok [of e st args v st']
    by (cases "length args = 2") blast+
qed

lemma get_inv:
  assumes "get e st name syn = Inr (v, st')" "allocated st name"
  shows "keys_lower st \<Longrightarrow> keys_lower st'" "heap_ok st \<Longrightarrow> heap_ok st'"
  using get_cases [OF assms(1)] assms(2) create_inv [of e st "[name]" v st']
  by auto

lemma remove_inv:
  assumes "remove_profile st name = Inr st'"
  shows "keys_lower st \<Longrightarrow> keys_lower st'" "heap_ok st \<Longrightarrow> heap_ok st'"
  using assms
  by (auto simp: remove_profile_def keys_lower_def heap_ok_def split: sum.splits if_splits)

lemma initial_inv: "keys_lower (initial_state e)" "heap_ok (initial_state e)"
  by (simp_all add: keys_lower_def heap_ok_def initial_heap_dom)

lemma reachable_inv: "reachable e st \<Longrightarrow> keys_lower st \<and> heap_ok st"
proof (induction rule: reachable.induct)
  case (loaded st)
  then have "st = initial_state e" by (simp add: module_init_initial)
  then show ?case by (simp add: initial_inv)
next
  case (called_create st args v st')
  then show ?case using create_inv by blast
next
  case (called_get st name syn v st')
  then show ?case using get_inv by blast
next
  case (called_remove st name st')
  then show ?case using remove_inv by blast
next
  case (called_quote st param)
  then show ?case by (simp add: quote_def keys_lower_def heap_ok_def)
next
  case (called_selfClosing st param)
  then show ?case by (simp add: selfClosing_def keys_lower_def heap_ok_def)
next
  case (caller_object st ps)
  then show ?case
    by (auto simp: new_object_def alloc_def keys_lower_def heap_ok_def intro: less_SucI)
next
  case (caller_assignment st a obj k v)
  then show ?case by (auto simp: keys_lower_def heap_ok_def)
qed

lemma reachable_fresh: "reachable e st \<Longrightarrow> heap st (next_addr st) = None"
  using reachable_inv [of e st] by (auto simp: heap_ok_def)

lemma reachable_initial: "reachable e (initial_state e)"
  by (rule reachable.loaded) (rule module_init_initial)

lemma reachable_with_object: "reachable e st \<Longrightarrow> reachable e (with_object st ps)"
  unfolding with_object_def by (rule reachable.caller_object)






















subsection \<open>stringCase\<close>

text \<open>
  C1 as it is stated does not hold: the case value is put into lower case before the
  switch, so \<open>"LOWER"\<close>, which is neither \<open>"lower"\<close> nor \<open>"upper"\<close>, still lowercases
  the string.
\<close>

theorem stringCase_case_value_counterexample:
  "Str ''LOWER'' \<noteq> Str ''lower'' \<and> Str ''LOWER'' \<noteq> Str ''upper'' \<and>
   stringCase (Prim (Str ''Ab'')) (Str ''LOWER'') = Inr (Prim (Str ''ab'')) \<and>
   stringCase (Prim (Str ''Ab'')) (Str ''LOWER'') \<noteq> Inr (Prim (Str ''Ab''))"
  by (simp add: stringCase_def caseKey_LOWER toLowerCase_def char_eval)

text \<open>
  C1, amended: for every string \<open>s\<close> and every case value \<open>c\<close> that is not a string
  equal to \<open>"lower"\<close> or \<open>"upper"\<close> up to the case of its letters (so for \<open>"leave"\<close>, the
  empty string, \<open>undefined\<close>, \<open>null\<close>, booleans and numbers), \<open>stringCase(s, c)\<close>
  returns \<open>s\<close> unchanged.
\<close>

theorem stringCase_leaves_unrecognised:
  assumes "\<forall>t. c = Str t \<longrightarrow> toLowerCase t \<noteq> ''lower'' \<and> toLowerCase t \<noteq> ''upper''"
  shows "stringCase (Prim (Str s)) c = Inr (Prim (Str s))"
proof -
  have "caseKey c \<noteq> ''lower'' \<and> caseKey c \<noteq> ''upper''"
  proof (cases c)
    case (Str t)
    with assms show ?thesis by (simp add: caseKey_Str)
  next
    case (Num n)
    then show ?thesis by (simp add: caseKey_Num)
  qed (simp_all add: caseKey_not_string)
  then show ?thesis by (simp add: stringCase_def)
qed

text \<open>The amended C1 at \<open>"leave"\<close>, the empty string and \<open>undefined\<close>.\<close>

theorem stringCase_leaves_unrecognised_witness:
  "toLowerCase ''leave'' \<noteq> ''lower'' \<and> toLowerCase ''leave'' \<noteq> ''upper'' \<and>
   stringCase (Prim (Str ''Ab'')) (Str ''leave'') = Inr (Prim (Str ''Ab'')) \<and>
   stringCase (Prim (Str ''Ab'')) (Str []) = Inr (Prim (Str ''Ab'')) \<and>
   stringCase (Prim (Str ''Ab'')) Undefined = Inr (Prim (Str ''Ab''))"
  using stringCase_leaves_unrecognised [of "Str ''leave''" "''Ab''"]
    stringCase_leaves_unrecognised [of "Str []" "''Ab''"]
    stringCase_leaves_unrecognised [of Undefined "''Ab''"]
  by (simp add: lower_leave)



subsection \<open>The accessors and the deprecated functions\<close>

text \<open>
  C4: for every profile \<open>p\<close>, \<open>p.selfClosing()\<close> is \<open>" /"\<close> exactly when
  \<open>p.self_closing_tag\<close> is \<open>"xhtml"\<close>, \<open>"/"\<close> exactly when it is the boolean \<open>true\<close>, and
  the empty string for every other value, among them \<open>false\<close> and a field that is
  omitted.
\<close>

theorem selfClosing_by_field:
  "(OutputProfile_selfClosing p = '' /'' \<longleftrightarrow> read_prop p ''self_closing_tag'' = Str ''xhtml'') \<and>
   (OutputProfile_selfClosing p = ''/'' \<longleftrightarrow> read_prop p ''self_closing_tag'' = Bool True) \<and>
   (OutputProfile_selfClosing p = [] \<longleftrightarrow>
      read_prop p ''self_closing_tag'' \<noteq> Str ''xhtml'' \<and>
      read_prop p ''self_closing_tag'' \<noteq> Bool True) \<and>
   (read_prop p ''self_closing_tag'' = Bool False \<longrightarrow> OutputProfile_selfClosing p = []) \<and>
   (props p ''self_closing_tag'' = None \<longrightarrow> OutputProfile_selfClosing p = [])"
  by (simp add: OutputProfile_selfClosing_def loose_eq_word_iff read_prop_def)

text \<open>C4 on the built-in profiles \<open>html\<close>, \<open>xhtml\<close> and \<open>xml\<close> and on an empty object.\<close>

theorem selfClosing_by_field_witness:
  "read_prop (obj_at (initial_state sample_env) 2) ''self_closing_tag'' = Bool False \<and>
   OutputProfile_selfClosing (obj_at (initial_state sample_env) 2) = [] \<and>
   props empty_object ''self_closing_tag'' = None \<and>
   OutputProfile_selfClosing empty_object = [] \<and>
   OutputProfile_selfClosing (obj_at (initial_state sample_env) 0) = '' /'' \<and>
   OutputProfile_selfClosing (obj_at (initial_state sample_env) 4) = ''/''"
  using selfClosing_by_field [of "obj_at (initial_state sample_env) 2"]
    selfClosing_by_field [of empty_object]
    selfClosing_by_field [of "obj_at (initial_state sample_env) 0"]
    selfClosing_by_field [of "obj_at (initial_state sample_env) 4"]
  by (simp add: initial_objects read_prop_def empty_object_def defaultProfile_def
      OutputProfile_selfClosing_def)

text \<open>
  C8: the deprecated \<open>quote(param)\<close> is \<open>'\<close> when \<open>param == "single"\<close> and \<open>"\<close>
  otherwise, which is \<open>attributeQuote()\<close> of a profile whose \<open>attr_quotes\<close> is \<open>param\<close>;
  the deprecated \<open>selfClosing(param)\<close> is \<open>" /"\<close> for \<open>"xhtml"\<close>, \<open>"/"\<close> for \<open>true\<close> and
  empty otherwise, which is \<open>selfClosing()\<close> of a profile whose \<open>self_closing_tag\<close> is
  \<open>param\<close>. Neither result depends on the state, and a call changes the state only by
  the line it logs.
\<close>

theorem deprecated_functions_mirror_accessors:
  "fst (quote st param) = (if param = Str ''single'' then [CHR 0x27] else [CHR 0x22]) \<and>
   (read_prop p ''attr_quotes'' = param \<longrightarrow> fst (quote st param) = attributeQuote p) \<and>
   fst (selfClosing st param') =
     (if param' = Str ''xhtml'' then '' /'' else if param' = Bool True then ''/'' else []) \<and>
   (read_prop q ''self_closing_tag'' = param' \<longrightarrow>
      fst (selfClosing st param') = OutputProfile_selfClosing q) \<and>
   fst (quote st' param) = fst (quote st param) \<and>
   fst (selfClosing st' param') = fst (selfClosing st param') \<and>
   snd (quote st param) = st\<lparr>console := console st @ [''deprecated'']\<rparr> \<and>
   snd (selfClosing st param') = st\<lparr>console := console st @ [''deprecated'']\<rparr>"
  by (simp add: quote_def selfClosing_def attributeQuote_def OutputProfile_selfClosing_def
      loose_eq_word_iff)

text \<open>C8 at \<open>"single"\<close> and at \<open>true\<close> (the built-in profile \<open>xml\<close>).\<close>

theorem deprecated_functions_mirror_accessors_witness:
  "read_prop \<lparr>proto = OutputProfilePrototype, props = defaultProfile(''attr_quotes'' \<mapsto> Str ''single'')\<rparr>
     ''attr_quotes'' = Str ''single'' \<and>
   fst (quote (initial_state sample_env) (Str ''single'')) = [CHR 0x27] \<and>
   attributeQuote \<lparr>proto = OutputProfilePrototype, props = defaultProfile(''attr_quotes'' \<mapsto> Str ''single'')\<rparr>
     = [CHR 0x27] \<and>
   read_prop (obj_at (initial_state sample_env) 4) ''self_closing_tag'' = Bool True \<and>
   fst (selfClosing (initial_state sample_env) (Bool True)) = ''/'' \<and>
   OutputProfile_selfClosing (obj_at (initial_state sample_env) 4) = ''/''"
  using deprecated_functions_mirror_accessors
    [of "initial_state sample_env" "Str ''single''"
        "\<lparr>proto = OutputProfilePrototype, props = defaultProfile(''attr_quotes'' \<mapsto> Str ''single'')\<rparr>"
        "Bool True" "obj_at (initial_state sample_env) 4" empty_state]
  by (simp add: read_prop_def initial_objects quote_def selfClosing_def attributeQuote_def
      OutputProfile_selfClosing_def)

subsection \<open>The registry\<close>

text \<open>
  C6: in every state of the running module the keys of \<open>profiles\<close> are in lower case,
  and for every registered name \<open>k\<close> and every \<open>n\<close> that differs from \<open>k\<close> only in the
  case of its letters, \<open>get(n)\<close> returns the instance stored under \<open>k\<close>, as \<open>get(k)\<close>
  does.
\<close>

theorem get_case_insensitive:
  assumes "reachable e st" and "profiles st k = Some a" and "toLowerCase n = toLowerCase k"
  shows "toLowerCase k = k \<and>
         get e st (Prim (Str n)) (Prim Undefined) = Inr (Ref a, st) \<and>
         get e st (Prim (Str n)) (Prim Undefined) = get e st (Prim (Str k)) (Prim Undefined)"
proof -
  from assms(1) have "keys_lower st" by (simp add: reachable_inv)
  with assms(2) have k: "toLowerCase k = k" by (auto simp: keys_lower_def)
  with assms(2,3) have "profiles st (toLowerCase n) = Some a" "profiles st (toLowerCase k) = Some a"
    by simp_all
  then show ?thesis using k by (simp add: get_registered)
qed

text \<open>C6 at \<open>get("XHTML")\<close> and \<open>get("xhtml")\<close> after the module has been loaded.\<close>

theorem get_case_insensitive_witness:
  "reachable sample_env (initial_state sample_env) \<and>
   profiles (initial_state sample_env) ''xhtml'' = Some 0 \<and>
   toLowerCase ''XHTML'' = toLowerCase ''xhtml'' \<and>
   get sample_env (initial_state sample_env) (Prim (Str ''XHTML'')) (Prim Undefined) =
     Inr (Ref 0, initial_state sample_env) \<and>
   get sample_env (initial_state sample_env) (Prim (Str ''XHTML'')) (Prim Undefined) =
     get sample_env (initial_state sample_env) (Prim (Str ''xhtml'')) (Prim Undefined)"
proof -
  have r: "reachable sample_env (initial_state sample_env)"
    by (rule reachable.loaded) (rule module_init_initial)
  have p: "profiles (initial_state sample_env) ''xhtml'' = Some 0" by simp
  have l: "toLowerCase ''XHTML'' = toLowerCase ''xhtml''" by (simp add: lower_XHTML)
  show ?thesis using r p l get_case_insensitive [OF r p l] by (simp add: get_registered)
qed

text \<open>
  C7: for every string \<open>name\<close> and every \<open>options\<close>, \<open>create(name, options)\<close> returns a
  new \<open>OutputProfile\<close> instance, stores it under the lowercased name, and a following
  \<open>get(name)\<close> returns that instance; with \<open>self_closing_tag: true\<close> among the options
  its \<open>selfClosing()\<close> is \<open>"/"\<close>. A second \<open>create\<close> with the same name makes another
  instance, and \<open>get(name)\<close> then returns the second one.
\<close>

theorem create_get_roundtrip:
  "result_value (create e st [Prim (Str s), options]) = Inr (Ref (next_addr st)) \<and>
   (reachable e st \<longrightarrow> heap st (next_addr st) = None) \<and>
   proto (obj_at (state_after st (create e st [Prim (Str s), options])) (next_addr st)) =
     OutputProfilePrototype \<and>
   profiles (state_after st (create e st [Prim (Str s), options])) (toLowerCase s) =
     Some (next_addr st) \<and>
   result_value (get e (state_after st (create e st [Prim (Str s), options]))
       (Prim (Str s)) (Prim Undefined)) = Inr (Ref (next_addr st)) \<and>
   (enum_props st options ''self_closing_tag'' = Some (Bool True) \<longrightarrow>
      OutputProfile_selfClosing
        (obj_at (state_after st (create e st [Prim (Str s), options])) (next_addr st)) = ''/'') \<and>
   result_value (create e (state_after st (create e st [Prim (Str s), options]))
       [Prim (Str s), options']) = Inr (Ref (next_addr st + 1)) \<and>
   result_value (get e
       (state_after (state_after st (create e st [Prim (Str s), options]))
          (create e (state_after st (create e st [Prim (Str s), options]))
             [Prim (Str s), options']))
       (Prim (Str s)) (Prim Undefined)) = Inr (Ref (next_addr st + 1))"
  by (simp add: create_two get_registered reachable_fresh obj_at_def
      OutputProfile_selfClosing_def read_prop_def extend_props_wins)

text \<open>
  C7 at \<open>create("custom", {self_closing_tag: true})\<close> after the module has been loaded
  and the caller has built the options object (at address 7).
\<close>

theorem create_get_roundtrip_witness:
  "reachable sample_env (with_object (initial_state sample_env) [''self_closing_tag'' \<mapsto> Bool True]) \<and>
   enum_props (with_object (initial_state sample_env) [''self_closing_tag'' \<mapsto> Bool True]) (Ref 7)
     ''self_closing_tag'' = Some (Bool True) \<and>
   heap (with_object (initial_state sample_env) [''self_closing_tag'' \<mapsto> Bool True]) 8 = None \<and>
   result_value (create sample_env
       (with_object (initial_state sample_env) [''self_closing_tag'' \<mapsto> Bool True])
       [Prim (Str ''custom''), Ref 7]) = Inr (Ref 8) \<and>
   result_value (get sample_env
       (state_after (with_object (initial_state sample_env) [''self_closing_tag'' \<mapsto> Bool True])
          (create sample_env
             (with_object (initial_state sample_env) [''self_closing_tag'' \<mapsto> Bool True])
             [Prim (Str ''custom''), Ref 7]))
       (Prim (Str ''custom'')) (Prim Undefined)) = Inr (Ref 8) \<and>
   OutputProfile_selfClosing
     (obj_at
        (state_after (with_object (initial_state sample_env) [''self_closing_tag'' \<mapsto> Bool True])
           (create sample_env
              (with_object (initial_state sample_env) [''self_closing_tag'' \<mapsto> Bool True])
              [Prim (Str ''custom''), Ref 7]))
        8) = ''/''"
proof -
  have r: "reachable sample_env
      (with_object (initial_state sample_env) [''self_closing_tag'' \<mapsto> Bool True])"
    by (rule reachable_with_object) (rule reachable_initial)
  have o: "enum_props (with_object (initial_state sample_env) [''self_closing_tag'' \<mapsto> Bool True])
      (Ref 7) ''self_closing_tag'' = Some (Bool True)"
    by (simp add: obj_at_def)
  show ?thesis
    using r o
      create_get_roundtrip [of sample_env
        "with_object (initial_state sample_env) [''self_closing_tag'' \<mapsto> Bool True]"
        "''custom''" "Ref 7" "Prim Undefined"]
    by simp
qed

text \<open>
  C5: the claim is that \<open>get\<close> of a name that is not registered returns the \<open>plain\<close>
  profile. The code does not: for a non-empty string that is not registered the last
  line of \<open>get\<close> evaluates \<open>'tag_case' in name\<close> on a primitive string, which throws.
  So \<open>get("nonexistent-name")\<close> throws, and so does \<open>get("xhtml")\<close> after
  \<open>remove("xhtml")\<close>, although \<open>plain\<close> is registered in both states.
\<close>

theorem get_unknown_name_raises:
  "profiles (initial_state sample_env) (toLowerCase ''nonexistent-name'') = None \<and>
   plain_profile (initial_state sample_env) = Ref 6 \<and>
   get sample_env (initial_state sample_env) (Prim (Str ''nonexistent-name'')) (Prim Undefined) =
     Inl TypeError \<and>
   \<not> isl (remove_profile (initial_state sample_env) (Prim (Str ''xhtml''))) \<and>
   plain_profile (projr (remove_profile (initial_state sample_env) (Prim (Str ''xhtml'')))) = Ref 6 \<and>
   get sample_env (projr (remove_profile (initial_state sample_env) (Prim (Str ''xhtml''))))
     (Prim (Str ''xhtml'')) (Prim Undefined) = Inl TypeError"
  by (simp add: lower_nonexistent get_unregistered plain_profile_def remove_profile_def)

subsection \<open>Inline options\<close>

text \<open>
  C2 as it is stated does not hold. With the options object \<open>{tag_case: "upper"}\<close> at
  address 7, \<open>get\<close> returns that very object (nothing is built, and the object has no
  accessor method), and the following \<open>get("upper")\<close> throws instead of returning
  \<open>plain\<close>.
\<close>

theorem get_inline_options_counterexample:
  "heap (with_object (initial_state sample_env) [''tag_case'' \<mapsto> Str ''upper'']) 7 \<noteq> None \<and>
   result_value (get sample_env
      (with_object (initial_state sample_env) [''tag_case'' \<mapsto> Str ''upper''])
      (Ref 7) (Prim Undefined)) = Inr (Ref 7) \<and>
   next_addr (state_after (with_object (initial_state sample_env) [''tag_case'' \<mapsto> Str ''upper''])
      (get sample_env
         (with_object (initial_state sample_env) [''tag_case'' \<mapsto> Str ''upper''])
         (Ref 7) (Prim Undefined))) =
     next_addr (with_object (initial_state sample_env) [''tag_case'' \<mapsto> Str ''upper'']) \<and>
   \<not> has_method (obj_at
      (state_after (with_object (initial_state sample_env) [''tag_case'' \<mapsto> Str ''upper''])
         (get sample_env
            (with_object (initial_state sample_env) [''tag_case'' \<mapsto> Str ''upper''])
            (Ref 7) (Prim Undefined)))
      7) ''tagName'' \<and>
   result_value (get sample_env
      (state_after (with_object (initial_state sample_env) [''tag_case'' \<mapsto> Str ''upper''])
         (get sample_env
            (with_object (initial_state sample_env) [''tag_case'' \<mapsto> Str ''upper''])
            (Ref 7) (Prim Undefined)))
      (Prim (Str ''upper'')) (Prim Undefined)) = Inl TypeError"
  by (simp add: get_Ref create_Ref obj_at_def has_property_def has_method_def get_def
      toLowerCase_def char_eval)

text \<open>
  C2, amended: \<open>get\<close> applied to an options object whose \<open>tag_case\<close> is \<open>"upper"\<close> returns
  that object itself, with all nine option fields present and \<open>tag_case\<close> still
  \<open>"upper"\<close> (so that \<open>tagName\<close> on it gives upper case); the dictionary \<open>profiles\<close> is
  unchanged, and a following \<open>get("upper")\<close> gives what it gave before the call.
\<close>

theorem get_inline_options:
  assumes "heap st a = Some obj" and "props obj ''tag_case'' = Some (Str ''upper'')"
  shows "result_value (get e st (Ref a) syn) = Inr (Ref a) \<and>
         read_prop (obj_at (state_after st (get e st (Ref a) syn)) a) ''tag_case'' = Str ''upper'' \<and>
         (\<forall>k \<in> set default_keys.
            props (obj_at (state_after st (get e st (Ref a) syn)) a) k \<noteq> None) \<and>
         tagName (obj_at (state_after st (get e st (Ref a) syn)) a) (Prim (Str n)) =
           Inr (Prim (Str (toUpperCase n))) \<and>
         profiles (state_after st (get e st (Ref a) syn)) = profiles st \<and>
         result_value (get e (state_after st (get e st (Ref a) syn))
            (Prim (Str ''upper'')) (Prim Undefined)) =
           result_value (get e st (Prim (Str ''upper'')) (Prim Undefined))"
proof -
  have at: "obj_at st a = obj" using assms(1) by (simp add: obj_at_def)
  have g: "get e st (Ref a) syn =
      Inr (Ref a, st\<lparr>heap := (heap st)(a \<mapsto>
             obj\<lparr>props := defaults_props e (props obj) defaultProfile\<rparr>)\<rparr>)"
    using assms(2) by (simp add: get_Ref create_Ref at has_property_own)
  have t: "defaults_props e (props obj) defaultProfile ''tag_case'' = Some (Str ''upper'')"
    using assms(2) by (simp add: defaults_props_kept)
  have f: "\<forall>k \<in> set default_keys. defaults_props e (props obj) defaultProfile k \<noteq> None"
    by (simp add: defaults_props_filled defaultProfile_None_iff)
  have u: "result_value (get e
        (st\<lparr>heap := (heap st)(a \<mapsto> obj\<lparr>props := defaults_props e (props obj) defaultProfile\<rparr>)\<rparr>)
        (Prim (Str ''upper'')) (Prim Undefined)) =
      result_value (get e st (Prim (Str ''upper'')) (Prim Undefined))"
    by (rule get_string_profiles) simp
  show ?thesis
    unfolding g
    using t f u
    by (simp add: obj_at_def read_prop_def tagName_def stringCase_def caseKey_upper)
qed

text \<open>The amended C2 at \<open>get({tag_case: "upper"})\<close> after the module has been loaded.\<close>

theorem get_inline_options_witness:
  "heap (with_object (initial_state sample_env) [''tag_case'' \<mapsto> Str ''upper'']) 7 =
     Some \<lparr>proto = ObjectPrototype, props = [''tag_case'' \<mapsto> Str ''upper'']\<rparr> \<and>
   props \<lparr>proto = ObjectPrototype, props = [''tag_case'' \<mapsto> Str ''upper'']\<rparr> ''tag_case'' =
     Some (Str ''upper'') \<and>
   result_value (get sample_env
      (with_object (initial_state sample_env) [''tag_case'' \<mapsto> Str ''upper''])
      (Ref 7) (Prim Undefined)) = Inr (Ref 7) \<and>
   tagName (obj_at
      (state_after (with_object (initial_state sample_env) [''tag_case'' \<mapsto> Str ''upper''])
         (get sample_env
            (with_object (initial_state sample_env) [''tag_case'' \<mapsto> Str ''upper''])
            (Ref 7) (Prim Undefined)))
      7) (Prim (Str ''div'')) = Inr (Prim (Str ''DIV'')) \<and>
   profiles
      (state_after (with_object (initial_state sample_env) [''tag_case'' \<mapsto> Str ''upper''])
         (get sample_env
            (with_object (initial_state sample_env) [''tag_case'' \<mapsto> Str ''upper''])
            (Ref 7) (Prim Undefined))) =
     profiles (initial_state sample_env)"
proof -
  have h: "heap (with_object (initial_state sample_env) [''tag_case'' \<mapsto> Str ''upper'']) 7 =
     Some \<lparr>proto = ObjectPrototype, props = [''tag_case'' \<mapsto> Str ''upper'']\<rparr>"
    by simp
  have p: "props \<lparr>proto = ObjectPrototype, props = [''tag_case'' \<mapsto> Str ''upper'']\<rparr>
      ''tag_case'' = Some (Str ''upper'')"
    by simp
  have u: "toUpperCase ''div'' = ''DIV''"
    by (simp add: toUpperCase_def char_eval)
  show ?thesis
    using h p get_inline_options [OF h p, of sample_env "Prim Undefined" "''div''"]
    by (simp add: u)
qed

text \<open>
  C10: for every plain options object \<open>o\<close>, \<open>create(o)\<close> (and \<open>get(o)\<close> when \<open>o\<close> has a
  \<open>tag_case\<close>) returns \<open>o\<close> itself; the only change of the state is that \<open>o\<close> is filled
  in place: every default field is present afterwards, one that \<open>o\<close> lacked has its
  default, one that \<open>o\<close> had with a value keeps it, and the other properties of \<open>o\<close>
  are as before. The object is still a plain object and has none of the accessor
  methods.
\<close>

theorem create_one_argument_in_place:
  assumes "heap st a = Some obj" and "proto obj = ObjectPrototype"
  shows "create e st [Ref a] =
           Inr (Ref a,
                st\<lparr>heap := (heap st)(a \<mapsto>
                     obj\<lparr>props := defaults_props e (props obj) defaultProfile\<rparr>)\<rparr>) \<and>
         (props obj ''tag_case'' \<noteq> None \<longrightarrow> get e st (Ref a) syn = create e st [Ref a]) \<and>
         (\<forall>k \<in> set default_keys.
            defaults_props e (props obj) defaultProfile k \<noteq> None \<and>
            (props obj k = None \<longrightarrow>
               defaults_props e (props obj) defaultProfile k = defaultProfile k)) \<and>
         (\<forall>k v. props obj k = Some v \<and> \<not> missing e v \<longrightarrow>
            defaults_props e (props obj) defaultProfile k = Some v) \<and>
         (\<forall>k. k \<notin> set default_keys \<longrightarrow>
            defaults_props e (props obj) defaultProfile k = props obj k) \<and>
         (\<forall>m. \<not> has_method (obj\<lparr>props := defaults_props e (props obj) defaultProfile\<rparr>) m)"
proof -
  have at: "obj_at st a = obj" using assms(1) by (simp add: obj_at_def)
  have 1: "create e st [Ref a] =
           Inr (Ref a,
                st\<lparr>heap := (heap st)(a \<mapsto>
                     obj\<lparr>props := defaults_props e (props obj) defaultProfile\<rparr>)\<rparr>)"
    by (simp add: create_Ref at)
  have 2: "props obj ''tag_case'' \<noteq> None \<longrightarrow> get e st (Ref a) syn = create e st [Ref a]"
    by (simp add: get_Ref at has_property_own)
  have 3: "\<forall>k \<in> set default_keys.
            defaults_props e (props obj) defaultProfile k \<noteq> None \<and>
            (props obj k = None \<longrightarrow>
               defaults_props e (props obj) defaultProfile k = defaultProfile k)"
    by (simp add: defaults_props_filled defaults_props_absent defaultProfile_None_iff)
  have 4: "\<forall>k v. props obj k = Some v \<and> \<not> missing e v \<longrightarrow>
            defaults_props e (props obj) defaultProfile k = Some v"
    by (simp add: defaults_props_kept)
  have 5: "\<forall>k. k \<notin> set default_keys \<longrightarrow>
            defaults_props e (props obj) defaultProfile k = props obj k"
    by (simp add: defaults_props_other defaultProfile_None_iff)
  have 6: "\<forall>m. \<not> has_method (obj\<lparr>props := defaults_props e (props obj) defaultProfile\<rparr>) m"
    using assms(2) by (simp add: has_method_def)
  from 1 2 3 4 5 6 show ?thesis by blast
qed

text \<open>C10 at \<open>create({tag_case: "upper"})\<close> after the module has been loaded.\<close>

theorem create_one_argument_in_place_witness:
  "heap (with_object (initial_state sample_env) [''tag_case'' \<mapsto> Str ''upper'']) 7 =
     Some \<lparr>proto = ObjectPrototype, props = [''tag_case'' \<mapsto> Str ''upper'']\<rparr> \<and>
   proto \<lparr>proto = ObjectPrototype, props = [''tag_case'' \<mapsto> Str ''upper'']\<rparr> = ObjectPrototype \<and>
   result_value (create sample_env
      (with_object (initial_state sample_env) [''tag_case'' \<mapsto> Str ''upper'']) [Ref 7]) =
     Inr (Ref 7) \<and>
   get sample_env (with_object (initial_state sample_env) [''tag_case'' \<mapsto> Str ''upper''])
      (Ref 7) (Prim Undefined) =
     create sample_env (with_object (initial_state sample_env) [''tag_case'' \<mapsto> Str ''upper''])
      [Ref 7] \<and>
   next_addr (state_after (with_object (initial_state sample_env) [''tag_case'' \<mapsto> Str ''upper''])
      (create sample_env
         (with_object (initial_state sample_env) [''tag_case'' \<mapsto> Str ''upper'']) [Ref 7])) = 8 \<and>
   map (read_prop (obj_at
      (state_after (with_object (initial_state sample_env) [''tag_case'' \<mapsto> Str ''upper''])
         (create sample_env
            (with_object (initial_state sample_env) [''tag_case'' \<mapsto> Str ''upper'']) [Ref 7]))
      7)) default_keys =
     [Str ''upper'', Str ''lower'', Str ''double'', Str ''decide'', Bool True, Bool True, Num 3,
      Str ''xhtml'', Str []] \<and>
   \<not> has_method (obj_at
      (state_after (with_object (initial_state sample_env) [''tag_case'' \<mapsto> Str ''upper''])
         (create sample_env
            (with_object (initial_state sample_env) [''tag_case'' \<mapsto> Str ''upper'']) [Ref 7]))
      7) ''tagName''"
proof -
  have h: "heap (with_object (initial_state sample_env) [''tag_case'' \<mapsto> Str ''upper'']) 7 =
     Some \<lparr>proto = ObjectPrototype, props = [''tag_case'' \<mapsto> Str ''upper'']\<rparr>"
    by simp
  have p: "proto \<lparr>proto = ObjectPrototype, props = [''tag_case'' \<mapsto> Str ''upper'']\<rparr> =
      ObjectPrototype"
    by simp
  show ?thesis
    using h p create_one_argument_in_place [OF h p, of sample_env "Prim Undefined"]
    by (simp add: obj_at_def read_prop_def default_keys_def defaults_props_def
        defaultProfile_def missing_def)
qed

subsection \<open>Exceptions\<close>




end
